theory Spec2Isabelle
  imports Main
begin

section \<open>The triple graph\<close>

text \<open>
  \<^verbatim>\<open>check_rdf_graph\<close> receives a NetworkX \<^verbatim>\<open>MultiDiGraph\<close> whose nodes are RDFLib
  terms. Edges run subject to object and are keyed by the predicate. The node view of
  NetworkX is keyed by node, so it lists every node once, in insertion order.
\<close>

datatype rdf_term = BNode string | URIRef string | Literal string

fun is_BNode :: "rdf_term \<Rightarrow> bool" where
  "is_BNode (BNode _) = True"
| "is_BNode _ = False"

record graph =
  nodes :: "rdf_term list"
  edges :: "(rdf_term \<times> rdf_term \<times> string) list"

text \<open>\<^verbatim>\<open>graph.in_degree\<close> of a multigraph counts every incoming edge.\<close>

definition in_degree :: "graph \<Rightarrow> rdf_term \<Rightarrow> nat" where
  "in_degree g n = length (filter (\<lambda>(u, v, k). v = n) (edges g))"

section \<open>The diagnostics collector\<close>

text \<open>
  The class \<^verbatim>\<open>Issues\<close> of \<^verbatim>\<open>ml_croissant._src.core.issues\<close> is not among the
  sources; everything in this section follows the spec's description of the collector.
\<close>

text \<open>
  Modelled from the spec: the diagnostic context of the missing class \<^verbatim>\<open>Issues\<close>, a
  mapping of the four scope names to their current values (\<open>None\<close>: not set).
\<close>

record Context =
  dataset_name :: "string option"
  distribution_name :: "string option"
  record_set_name :: "string option"
  field_name :: "string option"

text \<open>Modelled from the spec: the context of the missing class \<^verbatim>\<open>Issues\<close> before any
  scope is entered.\<close>

definition empty_context :: Context where
  "empty_context =
     \<lparr>dataset_name = None, distribution_name = None, record_set_name = None,
      field_name = None\<rparr>"

text \<open>Modelled from the spec: the severities of the issues that the missing class
  \<^verbatim>\<open>Issues\<close> collects.\<close>

datatype severity = Error | Warning

text \<open>Modelled from the spec: an issue of the missing class \<^verbatim>\<open>Issues\<close>, that is a
  severity, a message and the diagnostic context active when it was raised.\<close>

record issue =
  severity :: severity
  message :: string
  ctx :: Context

text \<open>Modelled from the spec: the state of the missing class \<^verbatim>\<open>Issues\<close>, the issues
  accumulated so far, in the order in which they were raised, and the current context.\<close>

record Issues =
  collected :: "issue list"
  local_context :: Context

text \<open>Modelled from the spec: \<^verbatim>\<open>Issues.add_error\<close> (missing) records the message as an
  error in the current context.\<close>

definition add_error :: "Issues \<Rightarrow> string \<Rightarrow> Issues" where
  "add_error issues msg =
     issues\<lparr>collected := collected issues @
       [\<lparr>severity = Error, message = msg, ctx = local_context issues\<rparr>]\<rparr>"

text \<open>Modelled from the spec: \<^verbatim>\<open>Issues.add_warning\<close> (missing) records the message as a
  warning in the current context.\<close>

definition add_warning :: "Issues \<Rightarrow> string \<Rightarrow> Issues" where
  "add_warning issues msg =
     issues\<lparr>collected := collected issues @
       [\<lparr>severity = Warning, message = msg, ctx = local_context issues\<rparr>]\<rparr>"

text \<open>Modelled from the spec: entering a scope of the missing \<^verbatim>\<open>Issues.context\<close>
  overrides the scopes that the call names and keeps the others.\<close>

definition override :: "Context \<Rightarrow> Context \<Rightarrow> Context" where
  "override c kwargs =
     \<lparr>dataset_name = (case dataset_name kwargs of None \<Rightarrow> dataset_name c | Some v \<Rightarrow> Some v),
      distribution_name =
        (case distribution_name kwargs of None \<Rightarrow> distribution_name c | Some v \<Rightarrow> Some v),
      record_set_name =
        (case record_set_name kwargs of None \<Rightarrow> record_set_name c | Some v \<Rightarrow> Some v),
      field_name = (case field_name kwargs of None \<Rightarrow> field_name c | Some v \<Rightarrow> Some v)\<rparr>"

text \<open>
  Modelled from the spec: the entry of the missing context manager \<^verbatim>\<open>Issues.context\<close>.
  The statement \<^verbatim>\<open>with issues.context(**kwargs): body\<close> is
  \<open>context_exit (body (context_enter issues kwargs)) saved\<close> where \<open>saved\<close> is the
  context on entry.
\<close>

definition context_enter :: "Issues \<Rightarrow> Context \<Rightarrow> Issues" where
  "context_enter issues kwargs =
     issues\<lparr>local_context := override (local_context issues) kwargs\<rparr>"

text \<open>Modelled from the spec: the exit of the missing context manager
  \<^verbatim>\<open>Issues.context\<close> restores the context that was current on entry.\<close>

definition context_exit :: "Issues \<Rightarrow> Context \<Rightarrow> Issues" where
  "context_exit issues saved = issues\<lparr>local_context := saved\<rparr>"

section \<open>The entry resolver\<close>

datatype py_error = IndexError

text \<open>
  \<^verbatim>\<open>_find_entry_object\<close> (an Isabelle name cannot start with an underscore). The
  collector is mutated in place, so the caller sees the recorded error also when
  \<^verbatim>\<open>sources[0]\<close> raises: the model returns the collector beside the result.
\<close>

definition sources :: "graph \<Rightarrow> rdf_term list" where
  "sources g = filter (\<lambda>node. in_degree g node = 0 \<and> is_BNode node) (nodes g)"

definition more_than_one_dataset :: string where
  "more_than_one_dataset = ''Trying to define more than one dataset in the file.''"

definition find_entry_object :: "Issues \<Rightarrow> graph \<Rightarrow> Issues \<times> (py_error + rdf_term)" where
  "find_entry_object issues g =
     (let srcs = sources g;
          issues' = (if length srcs \<noteq> 1 then add_error issues more_than_one_dataset
                     else issues)
      in (issues', case srcs of [] \<Rightarrow> Inl IndexError | s # _ \<Rightarrow> Inr s))"

text \<open>The set of blank nodes of in-degree 0.\<close>

definition entry_candidates :: "graph \<Rightarrow> rdf_term set" where
  "entry_candidates g = set (sources g)"

section \<open>The typed nodes\<close>

text \<open>Modelled from the spec: the five variants of a node; of their classes only
  \<^verbatim>\<open>Metadata\<close> is among the sources.\<close>

datatype variant = MetadataV | DistributionV | RecordSetV | FieldV | SubFieldV

text \<open>
  The dataclass \<^verbatim>\<open>Metadata\<close> with its defaults: the three optional strings default
  to \<^verbatim>\<open>None\<close>, \<^verbatim>\<open>name\<close> and \<^verbatim>\<open>url\<close> to the empty string.
\<close>

record Metadata =
  citation :: "string option"
  description :: "string option"
  license :: "string option"
  name :: string
  url :: string

text \<open>
  Modelled from the spec: the classes of the variants other than \<^verbatim>\<open>Metadata\<close> are not
  among the sources. A variant declares its mandatory and its optional fields; a node
  of such a variant carries the values resolved for them, by field name.
\<close>

datatype body = Metadata_body Metadata | Typed_body variant "(string \<times> string) list"

text \<open>Modelled from the spec: the base class \<^verbatim>\<open>Node\<close> is not among the sources. A node
  knows its position in the graph.\<close>

record Node =
  node :: rdf_term
  body :: body

text \<open>
  Modelled from the spec: the static schema table is external to the sources. It maps
  the fields of a variant to predicates, declares the mandatory and the optional fields
  of the four variants whose classes are missing, and says which notice, if any, an
  optional property gives rise to (the spec reserves warnings for these).
\<close>

record schema =
  predicate_of :: "variant \<Rightarrow> string \<Rightarrow> string"
  mandatory :: "variant \<Rightarrow> string list"
  optional :: "variant \<Rightarrow> string list"
  optional_notice :: "string \<Rightarrow> string option \<Rightarrow> string option"

text \<open>
  Attribute lookup by name on a \<^verbatim>\<open>Metadata\<close> object, as the property checks do it.
  \<open>None\<close> stands for an attribute that is \<^verbatim>\<open>None\<close> or that the object does not have.
\<close>

definition Metadata_getattr :: "Metadata \<Rightarrow> string \<Rightarrow> string option" where
  "Metadata_getattr m p =
     (if p = ''citation'' then citation m
      else if p = ''description'' then description m
      else if p = ''license'' then license m
      else if p = ''name'' then Some (name m)
      else if p = ''url'' then Some (url m)
      else None)"

text \<open>The default of a string field of a dataclass: the empty string.\<close>

definition default_str :: "string option \<Rightarrow> string" where
  "default_str v = (case v of None \<Rightarrow> [] | Some s \<Rightarrow> s)"

text \<open>Modelled from the spec: attribute lookup by name on a node of any variant; the
  classes of four of them are missing.\<close>

fun getattr :: "Node \<Rightarrow> string \<Rightarrow> string option" where
  "getattr nd p =
     (case body nd of
        Metadata_body m \<Rightarrow> Metadata_getattr m p
      | Typed_body v ps \<Rightarrow> map_of ps p)"

text \<open>Modelled from the spec: \<^verbatim>\<open>node.name\<close> on a node of any variant (the base class
  is missing), with the default of the dataclasses for a name that was not resolved.\<close>

definition Node_name :: "Node \<Rightarrow> string" where
  "Node_name nd = default_str (getattr nd ''name'')"

section \<open>The property checks\<close>

text \<open>
  Modelled from the spec: the error of the missing
  \<^verbatim>\<open>Node.assert_has_mandatory_properties\<close> refers to the field by name; the wording is
  the model's.
\<close>

definition mandatory_message :: "string \<Rightarrow> string" where
  "mandatory_message p = ''Property '' @ p @ '' is mandatory, but does not exist.''"

text \<open>Modelled from the spec: for the missing \<^verbatim>\<open>Node.assert_has_mandatory_properties\<close>
  a mandatory field fails when it is absent or empty.\<close>

definition missing :: "string option \<Rightarrow> bool" where
  "missing v = (case v of None \<Rightarrow> True | Some s \<Rightarrow> s = [])"

text \<open>Modelled from the spec: \<^verbatim>\<open>Node.assert_has_mandatory_properties\<close> of the missing
  base class records one error for every listed field that is absent or empty.\<close>

fun assert_has_mandatory_properties ::
  "Issues \<Rightarrow> (string \<Rightarrow> string option) \<Rightarrow> string list \<Rightarrow> Issues" where
  "assert_has_mandatory_properties issues attr [] = issues"
| "assert_has_mandatory_properties issues attr (p # ps) =
     assert_has_mandatory_properties
       (if missing (attr p) then add_error issues (mandatory_message p) else issues) attr ps"

text \<open>Modelled from the spec: \<^verbatim>\<open>Node.assert_has_optional_properties\<close> of the missing
  base class accepts an absent field; for every listed field it records at most the
  warning that the schema table attaches to it.\<close>

fun assert_has_optional_properties ::
  "schema \<Rightarrow> Issues \<Rightarrow> (string \<Rightarrow> string option) \<Rightarrow> string list \<Rightarrow> Issues" where
  "assert_has_optional_properties sch issues attr [] = issues"
| "assert_has_optional_properties sch issues attr (p # ps) =
     assert_has_optional_properties sch
       (case optional_notice sch p (attr p) of
          None \<Rightarrow> issues
        | Some msg \<Rightarrow> add_warning issues msg) attr ps"

text \<open>\<^verbatim>\<open>Metadata.__post_init__\<close>.\<close>

definition Metadata_post_init :: "schema \<Rightarrow> Issues \<Rightarrow> Metadata \<Rightarrow> Issues" where
  "Metadata_post_init sch issues self =
     (let issues1 = assert_has_mandatory_properties issues (Metadata_getattr self)
                      [''name'', ''url''];
          issues2 = assert_has_optional_properties sch issues1 (Metadata_getattr self)
                      [''citation'', ''license'']
      in issues2)"

section \<open>The node materializer\<close>

text \<open>
  The functions \<^verbatim>\<open>from_rdf_graph\<close> and \<^verbatim>\<open>children_nodes\<close> of
  \<^verbatim>\<open>ml_croissant._src.structure_graph.graph\<close> are not among the sources, nor is the
  module of constants; this section follows the spec's graph adapter and node
  materializer.
\<close>

text \<open>Modelled from the spec: the literal values of the graph are its strings and its
  IRIs, which are terminal values; a blank node is not a value.\<close>

fun literal_value :: "rdf_term \<Rightarrow> string option" where
  "literal_value (Literal s) = Some s"
| "literal_value (URIRef s) = Some s"
| "literal_value (BNode _) = None"

text \<open>Modelled from the spec: the graph adapter's \<^verbatim>\<open>properties\<close> (missing), the values
  of the outgoing edges of a node with a given predicate whose target is a literal value,
  in edge order and with their multiplicity.\<close>

definition property_values :: "graph \<Rightarrow> rdf_term \<Rightarrow> string \<Rightarrow> string list" where
  "property_values g n p =
     List.map_filter
       (\<lambda>(u, v, k). if u = n \<and> k = p then literal_value v else None)
       (edges g)"

text \<open>Modelled from the spec: the value that the missing materializer takes for a scalar
  field, the first of the values of its predicate.\<close>

definition property_value :: "graph \<Rightarrow> rdf_term \<Rightarrow> string \<Rightarrow> string option" where
  "property_value g n p = (case property_values g n p of [] \<Rightarrow> None | s # _ \<Rightarrow> Some s)"

text \<open>Modelled from the spec: the graph adapter's \<^verbatim>\<open>children\<close> (missing), the distinct
  targets of the outgoing edges of a node with a given predicate, in the order in which
  the edges were inserted.\<close>

definition children_terms :: "graph \<Rightarrow> rdf_term \<Rightarrow> string \<Rightarrow> rdf_term list" where
  "children_terms g n p =
     rev (remdups (rev (map (\<lambda>(u, v, k). v) (filter (\<lambda>(u, v, k). u = n \<and> k = p) (edges g)))))"

text \<open>Modelled from the spec: the predicate of the distribution edges, one of the four
  fixed constants of the missing module \<^verbatim>\<open>constants\<close>.\<close>

definition SCHEMA_ORG_DISTRIBUTION :: string where
  "SCHEMA_ORG_DISTRIBUTION = ''https://schema.org/distribution''"

text \<open>Modelled from the spec: the predicate of the record-set edges, of the missing
  module \<^verbatim>\<open>constants\<close>.\<close>

definition ML_COMMONS_RECORD_SET :: string where
  "ML_COMMONS_RECORD_SET = ''http://mlcommons.org/schema/recordSet''"

text \<open>Modelled from the spec: the predicate of the field edges, of the missing module
  \<^verbatim>\<open>constants\<close>.\<close>

definition ML_COMMONS_FIELD :: string where
  "ML_COMMONS_FIELD = ''http://mlcommons.org/schema/field''"

text \<open>Modelled from the spec: the predicate of the sub-field edges, of the missing module
  \<^verbatim>\<open>constants\<close>.\<close>

definition ML_COMMONS_SUB_FIELD :: string where
  "ML_COMMONS_SUB_FIELD = ''http://mlcommons.org/schema/subField''"

text \<open>Modelled from the spec: the variant as which the missing \<^verbatim>\<open>children_nodes\<close>
  materializes the children under each of the four predicates that the walker passes.\<close>

definition child_variant :: "string \<Rightarrow> variant" where
  "child_variant p =
     (if p = SCHEMA_ORG_DISTRIBUTION then DistributionV
      else if p = ML_COMMONS_RECORD_SET then RecordSetV
      else if p = ML_COMMONS_FIELD then FieldV
      else SubFieldV)"

text \<open>Modelled from the spec: the missing materializer reads a field of a variant from the
  predicate that the schema table gives for it.\<close>

definition resolve :: "schema \<Rightarrow> graph \<Rightarrow> rdf_term \<Rightarrow> variant \<Rightarrow> string \<Rightarrow> string option" where
  "resolve sch g n v p = property_value g n (predicate_of sch v p)"

text \<open>
  Modelled from the spec: the object that the missing materializer constructs for a
  variant at a graph position. The metadata gets the five fields of its dataclass, with
  their defaults where the graph has no value; a node of another variant gets those of
  its mandatory and optional fields that the graph has a value for, and ignores every
  other property.
\<close>

definition typed_node :: "schema \<Rightarrow> graph \<Rightarrow> rdf_term \<Rightarrow> variant \<Rightarrow> Node" where
  "typed_node sch g n v =
     (case v of
        MetadataV \<Rightarrow>
          \<lparr>node = n,
           body = Metadata_body
             \<lparr>citation = resolve sch g n v ''citation'',
              description = resolve sch g n v ''description'',
              license = resolve sch g n v ''license'',
              name = default_str (resolve sch g n v ''name''),
              url = default_str (resolve sch g n v ''url'')\<rparr>\<rparr>
      | _ \<Rightarrow>
          \<lparr>node = n,
           body = Typed_body v
             (List.map_filter
                (\<lambda>p. case resolve sch g n v p of None \<Rightarrow> None | Some s \<Rightarrow> Some (p, s))
                (mandatory sch v @ optional sch v))\<rparr>)"

text \<open>Modelled from the spec: the checks that run when the object of a variant is
  constructed; for the variants whose classes are missing they are the two checks on the
  mandatory and the optional fields of the schema table.\<close>

definition post_init :: "schema \<Rightarrow> Issues \<Rightarrow> Node \<Rightarrow> Issues" where
  "post_init sch issues nd =
     (case body nd of
        Metadata_body m \<Rightarrow> Metadata_post_init sch issues m
      | Typed_body v ps \<Rightarrow>
          assert_has_optional_properties sch
            (assert_has_mandatory_properties issues (getattr nd) (mandatory sch v))
            (getattr nd) (optional sch v))"

text \<open>Modelled from the spec: the missing materializer constructs the node, which runs the
  checks, and returns it whatever they record.\<close>

definition materialize ::
  "schema \<Rightarrow> Issues \<Rightarrow> graph \<Rightarrow> rdf_term \<Rightarrow> variant \<Rightarrow> Issues \<times> Node" where
  "materialize sch issues g n v =
     (let nd = typed_node sch g n v in (post_init sch issues nd, nd))"

text \<open>Modelled from the spec: the missing \<^verbatim>\<open>from_rdf_graph\<close>, as the walker calls it: the
  entry is materialized as the metadata; it has no parent.\<close>

definition from_rdf_graph ::
  "schema \<Rightarrow> Issues \<Rightarrow> graph \<Rightarrow> rdf_term \<Rightarrow> rdf_term option \<Rightarrow> Issues \<times> Node" where
  "from_rdf_graph sch issues g n parent = materialize sch issues g n MetadataV"

text \<open>Modelled from the spec: the loop of the missing \<^verbatim>\<open>children_nodes\<close>, which
  materializes the children one after the other.\<close>

fun materialize_all ::
  "schema \<Rightarrow> Issues \<Rightarrow> graph \<Rightarrow> variant \<Rightarrow> rdf_term list \<Rightarrow> Issues \<times> Node list" where
  "materialize_all sch issues g v [] = (issues, [])"
| "materialize_all sch issues g v (t # ts) =
     (let (issues1, nd) = materialize sch issues g t v;
          (issues2, nds) = materialize_all sch issues1 g v ts
      in (issues2, nd # nds))"

text \<open>Modelled from the spec: the missing \<^verbatim>\<open>children_nodes\<close>. The node holds a reference
  to the graph and to the collector; the model passes both.\<close>

definition children_nodes ::
  "schema \<Rightarrow> Issues \<Rightarrow> graph \<Rightarrow> Node \<Rightarrow> string \<Rightarrow> Issues \<times> Node list" where
  "children_nodes sch issues g nd expected_property =
     materialize_all sch issues g (child_variant expected_property)
       (children_terms g (node nd) expected_property)"

section \<open>The hierarchy walker\<close>

text \<open>The message of the error for a record set without fields.\<close>

definition no_field :: string where
  "no_field = ''The node doesn't define any field.''"

text \<open>The inner loop of \<^verbatim>\<open>check_rdf_graph\<close>, over the fields of one record set.\<close>

fun fields_loop ::
  "schema \<Rightarrow> graph \<Rightarrow> Node list \<Rightarrow> Issues \<times> Node list \<Rightarrow> Issues \<times> Node list" where
  "fields_loop sch g [] (issues, nds) = (issues, nds)"
| "fields_loop sch g (fld # flds) (issues, nds) =
     (let (issues1, sub_fields) = children_nodes sch issues g fld ML_COMMONS_SUB_FIELD
      in fields_loop sch g flds (issues1, nds @ sub_fields))"

text \<open>The outer loop, over the record sets; each turn runs inside its own context.\<close>

fun record_sets_loop ::
  "schema \<Rightarrow> graph \<Rightarrow> string \<Rightarrow> Node list \<Rightarrow> Issues \<times> Node list \<Rightarrow> Issues \<times> Node list" where
  "record_sets_loop sch g ds_name [] (issues, nds) = (issues, nds)"
| "record_sets_loop sch g ds_name (record_set # record_sets) (issues, nds) =
     (let saved = local_context issues;
          issues1 = context_enter issues
                      \<lparr>dataset_name = Some ds_name, distribution_name = None,
                       record_set_name = Some (Node_name record_set),
                       field_name = Some []\<rparr>;
          (issues2, flds) = children_nodes sch issues1 g record_set ML_COMMONS_FIELD;
          nds2 = nds @ flds;
          issues3 = (if length flds = 0 then add_error issues2 no_field else issues2);
          (issues4, nds4) = fields_loop sch g flds (issues3, nds2);
          issues5 = context_exit issues4 saved
      in record_sets_loop sch g ds_name record_sets (issues5, nds4))"

text \<open>
  \<^verbatim>\<open>check_rdf_graph\<close>. The collector is threaded through every call that may record an
  issue; the schema table and the graph, which the source reaches through the nodes, are
  passed along. When \<^verbatim>\<open>_find_entry_object\<close> raises, the exception leaves the function
  at once, with the collector as it is then.
\<close>

definition check_rdf_graph ::
  "schema \<Rightarrow> Issues \<Rightarrow> graph \<Rightarrow> Issues \<times> (py_error + Node list)" where
  "check_rdf_graph sch issues g =
     (case find_entry_object issues g of
        (issues0, Inl e) \<Rightarrow> (issues0, Inl e)
      | (issues0, Inr source) \<Rightarrow>
          (let (issues1, metadata) = from_rdf_graph sch issues0 g source None;
               nds = [metadata];
               ds_name = Node_name metadata;
               saved = local_context issues1;
               issues2 = context_enter issues1
                           \<lparr>dataset_name = Some ds_name, distribution_name = Some [],
                            record_set_name = None, field_name = None\<rparr>;
               (issues3, distributions) =
                 children_nodes sch issues2 g metadata SCHEMA_ORG_DISTRIBUTION;
               nds1 = nds @ distributions;
               issues4 = context_exit issues3 saved;
               (issues5, record_sets) =
                 children_nodes sch issues4 g metadata ML_COMMONS_RECORD_SET;
               nds2 = nds1 @ record_sets;
               (issues6, nds3) = record_sets_loop sch g ds_name record_sets (issues5, nds2)
           in (issues6, Inr nds3)))"

section \<open>What the walk produces\<close>

text \<open>
  The outcome of the walk in closed form: which issues a check appends to the collector,
  and which nodes and issues each stage of \<open>check_rdf_graph\<close> contributes. The
  theorems below relate the functions above to these.
\<close>

definition mandatory_errors ::
  "Context \<Rightarrow> (string \<Rightarrow> string option) \<Rightarrow> string list \<Rightarrow> issue list" where
  "mandatory_errors c attr ps =
     map (\<lambda>p. \<lparr>severity = Error, message = mandatory_message p, ctx = c\<rparr>)
       (filter (\<lambda>p. missing (attr p)) ps)"

definition optional_warnings ::
  "schema \<Rightarrow> Context \<Rightarrow> (string \<Rightarrow> string option) \<Rightarrow> string list \<Rightarrow> issue list" where
  "optional_warnings sch c attr ps =
     List.map_filter
       (\<lambda>p. case optional_notice sch p (attr p) of
               None \<Rightarrow> None
             | Some msg \<Rightarrow> Some \<lparr>severity = Warning, message = msg, ctx = c\<rparr>) ps"

text \<open>The mandatory and the optional fields of a variant; those of the metadata are
  the ones that \<^verbatim>\<open>Metadata.__post_init__\<close> names.\<close>

definition mandatory_fields :: "schema \<Rightarrow> variant \<Rightarrow> string list" where
  "mandatory_fields sch v = (if v = MetadataV then [''name'', ''url''] else mandatory sch v)"

definition optional_fields :: "schema \<Rightarrow> variant \<Rightarrow> string list" where
  "optional_fields sch v =
     (if v = MetadataV then [''citation'', ''license''] else optional sch v)"

text \<open>The issues that constructing a node appends, in the context \<open>c\<close>.\<close>

definition emitted :: "schema \<Rightarrow> Context \<Rightarrow> Node \<Rightarrow> issue list" where
  "emitted sch c nd =
     (case body nd of
        Metadata_body m \<Rightarrow>
          mandatory_errors c (Metadata_getattr m) [''name'', ''url''] @
          optional_warnings sch c (Metadata_getattr m) [''citation'', ''license'']
      | Typed_body v ps \<Rightarrow>
          mandatory_errors c (getattr nd) (mandatory sch v) @
          optional_warnings sch c (getattr nd) (optional sch v))"

text \<open>The children of a node under a predicate, as nodes.\<close>

definition kids :: "schema \<Rightarrow> graph \<Rightarrow> Node \<Rightarrow> string \<Rightarrow> Node list" where
  "kids sch g nd p =
     map (\<lambda>t. typed_node sch g t (child_variant p)) (children_terms g (node nd) p)"

text \<open>The context inside the scope of a record set, entered from the context \<open>c\<close>.\<close>

definition record_set_context :: "Context \<Rightarrow> string \<Rightarrow> Node \<Rightarrow> Context" where
  "record_set_context c ds_name r =
     override c
       \<lparr>dataset_name = Some ds_name, distribution_name = None,
        record_set_name = Some (Node_name r), field_name = Some []\<rparr>"

definition distribution_context :: "Context \<Rightarrow> string \<Rightarrow> Context" where
  "distribution_context c ds_name =
     override c
       \<lparr>dataset_name = Some ds_name, distribution_name = Some [],
        record_set_name = None, field_name = None\<rparr>"

text \<open>The nodes and the issues that one turn of the loop over the record sets adds.\<close>

definition record_set_nodes :: "schema \<Rightarrow> graph \<Rightarrow> Node \<Rightarrow> Node list" where
  "record_set_nodes sch g r =
     kids sch g r ML_COMMONS_FIELD @
     concat (map (\<lambda>f. kids sch g f ML_COMMONS_SUB_FIELD) (kids sch g r ML_COMMONS_FIELD))"

definition no_field_error :: "Context \<Rightarrow> issue" where
  "no_field_error c = \<lparr>severity = Error, message = no_field, ctx = c\<rparr>"

definition record_set_issues ::
  "schema \<Rightarrow> graph \<Rightarrow> Context \<Rightarrow> string \<Rightarrow> Node \<Rightarrow> issue list" where
  "record_set_issues sch g c ds_name r =
     (let c' = record_set_context c ds_name r;
          flds = kids sch g r ML_COMMONS_FIELD
      in concat (map (emitted sch c') flds) @
         (if flds = [] then [no_field_error c'] else []) @
         concat (map (\<lambda>f. concat (map (emitted sch c') (kids sch g f ML_COMMONS_SUB_FIELD)))
                   flds))"

text \<open>The issues that a run appends to the collector: what is there after it, less what
  was there before.\<close>

definition appended :: "Issues \<Rightarrow> Issues \<Rightarrow> issue list" where
  "appended before after = drop (length (collected before)) (collected after)"

text \<open>The nodes that a walk from the entry \<open>s\<close> returns, and the issues that it appends
  when it starts in the context \<open>c\<close>.\<close>

definition entry_errors :: "graph \<Rightarrow> Context \<Rightarrow> issue list" where
  "entry_errors g c =
     (if length (sources g) \<noteq> 1
      then [\<lparr>severity = Error, message = more_than_one_dataset, ctx = c\<rparr>] else [])"

definition walk_nodes :: "schema \<Rightarrow> graph \<Rightarrow> rdf_term \<Rightarrow> Node list" where
  "walk_nodes sch g s =
     (let m = typed_node sch g s MetadataV;
          rs = kids sch g m ML_COMMONS_RECORD_SET
      in [m] @ kids sch g m SCHEMA_ORG_DISTRIBUTION @ rs @
         concat (map (record_set_nodes sch g) rs))"

definition walk_issues :: "schema \<Rightarrow> graph \<Rightarrow> Context \<Rightarrow> rdf_term \<Rightarrow> issue list" where
  "walk_issues sch g c s =
     (let m = typed_node sch g s MetadataV;
          ds_name = Node_name m;
          rs = kids sch g m ML_COMMONS_RECORD_SET
      in entry_errors g c @ emitted sch c m @
         concat (map (emitted sch (distribution_context c ds_name))
                   (kids sch g m SCHEMA_ORG_DISTRIBUTION)) @
         concat (map (emitted sch c) rs) @
         concat (map (record_set_issues sch g c ds_name) rs))"

text \<open>The structural errors are the two that \<^verbatim>\<open>graph.py\<close> itself records.\<close>

definition structural :: "issue \<Rightarrow> bool" where
  "structural i \<longleftrightarrow>
     severity i = Error \<and> (message i = more_than_one_dataset \<or> message i = no_field)"

text \<open>The error that \<^verbatim>\<open>check_rdf_graph\<close> records for a record set without fields.\<close>

definition is_no_field :: "issue \<Rightarrow> bool" where
  "is_no_field i \<longleftrightarrow> severity i = Error \<and> message i = no_field"

section \<open>Example inputs\<close>

text \<open>
  A schema table in which every field \<open>p\<close> is read from the predicate
  \<^verbatim>\<open>https://schema.org/p\<close>, the four other variants declare a mandatory \<^verbatim>\<open>name\<close> and
  an optional \<^verbatim>\<open>description\<close>, and optional properties give no notice.
\<close>

definition example_schema :: schema where
  "example_schema =
     \<lparr>predicate_of = (\<lambda>v p. ''https://schema.org/'' @ p),
      mandatory = (\<lambda>v. [''name'']),
      optional = (\<lambda>v. [''description'']),
      optional_notice = (\<lambda>p v. None)\<rparr>"

definition no_issues :: Issues where
  "no_issues = \<lparr>collected = [], local_context = empty_context\<rparr>"

definition NAME :: string where
  "NAME = ''https://schema.org/name''"

definition URL :: string where
  "URL = ''https://schema.org/url''"

text \<open>
  The graph of the spec's property P5: metadata \<open>m\<close>, distributions \<open>d1\<close> and \<open>d2\<close>,
  record set \<open>r1\<close> with the fields \<open>a\<close> and \<open>b\<close>, record set \<open>r2\<close> without fields.
\<close>

definition p5_graph :: graph where
  "p5_graph =
     \<lparr>nodes = [BNode ''m'', Literal ''Titanic'', Literal ''https://t.org'',
               BNode ''d1'', BNode ''d2'', BNode ''r1'', BNode ''r2'',
               Literal ''D1'', Literal ''D2'', Literal ''R1'', Literal ''R2'',
               BNode ''a'', BNode ''b'', Literal ''A'', Literal ''B''],
      edges = [(BNode ''m'', Literal ''Titanic'', NAME),
               (BNode ''m'', Literal ''https://t.org'', URL),
               (BNode ''m'', BNode ''d1'', SCHEMA_ORG_DISTRIBUTION),
               (BNode ''m'', BNode ''d2'', SCHEMA_ORG_DISTRIBUTION),
               (BNode ''m'', BNode ''r1'', ML_COMMONS_RECORD_SET),
               (BNode ''m'', BNode ''r2'', ML_COMMONS_RECORD_SET),
               (BNode ''d1'', Literal ''D1'', NAME),
               (BNode ''d2'', Literal ''D2'', NAME),
               (BNode ''r1'', Literal ''R1'', NAME),
               (BNode ''r2'', Literal ''R2'', NAME),
               (BNode ''r1'', BNode ''a'', ML_COMMONS_FIELD),
               (BNode ''r1'', BNode ''b'', ML_COMMONS_FIELD),
               (BNode ''a'', Literal ''A'', NAME),
               (BNode ''b'', Literal ''B'', NAME)]\<rparr>"

text \<open>Two datasets in one file: the blank nodes \<open>m1\<close> and \<open>m2\<close> have no parent.\<close>

definition two_datasets_graph :: graph where
  "two_datasets_graph =
     \<lparr>nodes = [BNode ''m1'', Literal ''One'', BNode ''m2'', Literal ''Two''],
      edges = [(BNode ''m1'', Literal ''One'', NAME),
               (BNode ''m2'', Literal ''Two'', NAME)]\<rparr>"

text \<open>
  A dataset whose top-level object has an identifier: its node is an IRI, and the graph
  has no blank node at all.
\<close>

definition iri_dataset_graph :: graph where
  "iri_dataset_graph =
     \<lparr>nodes = [URIRef ''https://t.org/dataset'', Literal ''Titanic''],
      edges = [(URIRef ''https://t.org/dataset'', Literal ''Titanic'', NAME)]\<rparr>"

text \<open>The dataset \<open>Titanic\<close> with one record set that has neither a name nor a field.\<close>

definition unnamed_record_set_graph :: graph where
  "unnamed_record_set_graph =
     \<lparr>nodes = [BNode ''m'', Literal ''Titanic'', Literal ''https://t.org'', BNode ''r''],
      edges = [(BNode ''m'', Literal ''Titanic'', NAME),
               (BNode ''m'', Literal ''https://t.org'', URL),
               (BNode ''m'', BNode ''r'', ML_COMMONS_RECORD_SET)]\<rparr>"

text \<open>
  Two datasets in one file, the first with a hierarchy below it: \<open>m1\<close> has the
  distribution \<open>d\<close> and the record set \<open>r\<close>, \<open>r\<close> the field \<open>a\<close>, and \<open>a\<close> the sub-field
  \<open>s\<close>; \<open>m2\<close> has no parent either.
\<close>

definition two_datasets_hierarchy_graph :: graph where
  "two_datasets_hierarchy_graph =
     \<lparr>nodes = [BNode ''m1'', Literal ''One'', URIRef ''https://one.org'',
               BNode ''d'', Literal ''D'', BNode ''r'', Literal ''R'',
               BNode ''a'', Literal ''A'', BNode ''s'', Literal ''S'',
               BNode ''m2'', Literal ''Two''],
      edges = [(BNode ''m1'', Literal ''One'', NAME),
               (BNode ''m1'', URIRef ''https://one.org'', URL),
               (BNode ''m1'', BNode ''d'', SCHEMA_ORG_DISTRIBUTION),
               (BNode ''d'', Literal ''D'', NAME),
               (BNode ''m1'', BNode ''r'', ML_COMMONS_RECORD_SET),
               (BNode ''r'', Literal ''R'', NAME),
               (BNode ''r'', BNode ''a'', ML_COMMONS_FIELD),
               (BNode ''a'', Literal ''A'', NAME),
               (BNode ''a'', BNode ''s'', ML_COMMONS_SUB_FIELD),
               (BNode ''s'', Literal ''S'', NAME),
               (BNode ''m2'', Literal ''Two'', NAME)]\<rparr>"

text \<open>A dataset whose \<^verbatim>\<open>url\<close> is an IRI and whose only distribution has no name.\<close>

definition iri_url_graph :: graph where
  "iri_url_graph =
     \<lparr>nodes = [BNode ''m'', Literal ''Titanic'', URIRef ''https://t.org'', BNode ''d''],
      edges = [(BNode ''m'', Literal ''Titanic'', NAME),
               (BNode ''m'', URIRef ''https://t.org'', URL),
               (BNode ''m'', BNode ''d'', SCHEMA_ORG_DISTRIBUTION)]\<rparr>"

text \<open>Two record sets with one field each: \<open>r1\<close> with \<open>a\<close>, \<open>r2\<close> with \<open>b\<close>.\<close>

definition two_record_sets_graph :: graph where
  "two_record_sets_graph =
     \<lparr>nodes = [BNode ''m'', Literal ''Titanic'', Literal ''https://t.org'',
               BNode ''r1'', BNode ''r2'', Literal ''R1'', Literal ''R2'',
               BNode ''a'', BNode ''b'', Literal ''A'', Literal ''B''],
      edges = [(BNode ''m'', Literal ''Titanic'', NAME),
               (BNode ''m'', Literal ''https://t.org'', URL),
               (BNode ''m'', BNode ''r1'', ML_COMMONS_RECORD_SET),
               (BNode ''m'', BNode ''r2'', ML_COMMONS_RECORD_SET),
               (BNode ''r1'', Literal ''R1'', NAME),
               (BNode ''r2'', Literal ''R2'', NAME),
               (BNode ''r1'', BNode ''a'', ML_COMMONS_FIELD),
               (BNode ''r2'', BNode ''b'', ML_COMMONS_FIELD),
               (BNode ''a'', Literal ''A'', NAME),
               (BNode ''b'', Literal ''B'', NAME)]\<rparr>"

text \<open>The failure scenario of the spec: the dataset \<open>Titanic\<close> with one distribution and
  one record set \<open>r\<close> that has no field.\<close>

definition no_field_graph :: graph where
  "no_field_graph =
     \<lparr>nodes = [BNode ''m'', Literal ''Titanic'', Literal ''https://t.org'',
               BNode ''d'', Literal ''D'', BNode ''r'', Literal ''R''],
      edges = [(BNode ''m'', Literal ''Titanic'', NAME),
               (BNode ''m'', Literal ''https://t.org'', URL),
               (BNode ''m'', BNode ''d'', SCHEMA_ORG_DISTRIBUTION),
               (BNode ''d'', Literal ''D'', NAME),
               (BNode ''m'', BNode ''r'', ML_COMMONS_RECORD_SET),
               (BNode ''r'', Literal ''R'', NAME)]\<rparr>"

section \<open>Entry resolution\<close>

lemma length_sources_card:
  "distinct (nodes g) \<Longrightarrow> length (sources g) = card (entry_candidates g)"
proof -
  assume "distinct (nodes g)"
  then have "distinct (sources g)"
    by (simp add: sources_def)
  then show ?thesis
    by (simp add: entry_candidates_def distinct_card)
qed

lemma entry_candidates_iff:
  "n \<in> entry_candidates g \<longleftrightarrow> n \<in> set (nodes g) \<and> in_degree g n = 0 \<and> is_BNode n"
  by (auto simp: entry_candidates_def sources_def)

text \<open>
  C2. On a graph with exactly one blank node of in-degree 0, \<open>find_entry_object\<close>
  returns that node and leaves the collector as it was; on a graph with none or with
  two or more, the collector gains exactly one error, the structural one, raised in
  the context current at the call.
\<close>

theorem find_entry_object_uniqueness:
  assumes "distinct (nodes g)"
  shows "(card (entry_candidates g) = 1 \<longrightarrow>
            (\<exists>s. entry_candidates g = {s} \<and> find_entry_object issues g = (issues, Inr s)))
       \<and> (card (entry_candidates g) \<noteq> 1 \<longrightarrow>
            collected (fst (find_entry_object issues g)) =
              collected issues @
                [\<lparr>severity = Error, message = more_than_one_dataset,
                  ctx = local_context issues\<rparr>]
            \<and> local_context (fst (find_entry_object issues g)) = local_context issues)"
proof (intro conjI impI)
  assume one: "card (entry_candidates g) = 1"
  with assms have len: "length (sources g) = 1"
    by (simp add: length_sources_card)
  then obtain s where s: "sources g = [s]"
    by (cases "sources g") auto
  then have "entry_candidates g = {s}"
    by (simp add: entry_candidates_def)
  moreover from s have "find_entry_object issues g = (issues, Inr s)"
    by (simp add: find_entry_object_def)
  ultimately show "\<exists>s. entry_candidates g = {s} \<and> find_entry_object issues g = (issues, Inr s)"
    by blast
next
  assume "card (entry_candidates g) \<noteq> 1"
  with assms have len: "length (sources g) \<noteq> 1"
    by (simp add: length_sources_card)
  then show "collected (fst (find_entry_object issues g)) =
      collected issues @
        [\<lparr>severity = Error, message = more_than_one_dataset, ctx = local_context issues\<rparr>]"
    by (simp add: find_entry_object_def Let_def add_error_def)
  from len show "local_context (fst (find_entry_object issues g)) = local_context issues"
    by (simp add: find_entry_object_def Let_def add_error_def)
qed

theorem find_entry_object_uniqueness_witness:
  "distinct (nodes p5_graph) \<and> card (entry_candidates p5_graph) = 1
   \<and> find_entry_object no_issues p5_graph = (no_issues, Inr (BNode ''m''))
   \<and> distinct (nodes two_datasets_graph) \<and> card (entry_candidates two_datasets_graph) \<noteq> 1
   \<and> collected (fst (find_entry_object no_issues two_datasets_graph)) =
        [\<lparr>severity = Error, message = more_than_one_dataset, ctx = empty_context\<rparr>]"
proof -
  have d1: "distinct (nodes p5_graph)"
    by code_simp
  have s1: "sources p5_graph = [BNode ''m'']"
    by code_simp
  then have c1: "card (entry_candidates p5_graph) = 1"
    by (simp add: entry_candidates_def)
  have d2: "distinct (nodes two_datasets_graph)"
    by code_simp
  have s2: "sources two_datasets_graph = [BNode ''m1'', BNode ''m2'']"
    by code_simp
  then have c2: "card (entry_candidates two_datasets_graph) \<noteq> 1"
    by (simp add: entry_candidates_def)
  from find_entry_object_uniqueness [OF d1, of no_issues] c1 s1
  have "find_entry_object no_issues p5_graph = (no_issues, Inr (BNode ''m''))"
    by (auto simp: entry_candidates_def)
  moreover from find_entry_object_uniqueness [OF d2, of no_issues] c2
  have "collected (fst (find_entry_object no_issues two_datasets_graph)) =
      [\<lparr>severity = Error, message = more_than_one_dataset, ctx = empty_context\<rparr>]"
    by (simp add: no_issues_def)
  ultimately show ?thesis
    using d1 c1 d2 c2 by simp
qed

section \<open>The collector through the checks and the walk\<close>


lemma local_context_add_error [simp]: "local_context (add_error issues msg) = local_context issues"
  by (simp add: add_error_def)

lemma local_context_add_warning [simp]:
  "local_context (add_warning issues msg) = local_context issues"
  by (simp add: add_warning_def)

lemma collected_add_error [simp]:
  "collected (add_error issues msg) =
     collected issues @ [\<lparr>severity = Error, message = msg, ctx = local_context issues\<rparr>]"
  by (simp add: add_error_def)

lemma collected_add_warning [simp]:
  "collected (add_warning issues msg) =
     collected issues @ [\<lparr>severity = Warning, message = msg, ctx = local_context issues\<rparr>]"
  by (simp add: add_warning_def)

lemma mandatory_local_context [simp]:
  "local_context (assert_has_mandatory_properties issues attr ps) = local_context issues"
  by (induction ps arbitrary: issues) simp_all

lemma optional_local_context [simp]:
  "local_context (assert_has_optional_properties sch issues attr ps) = local_context issues"
  by (induction ps arbitrary: issues) (simp_all split: option.splits)

lemma mandatory_collected:
  "collected (assert_has_mandatory_properties issues attr ps) =
     collected issues @ mandatory_errors (local_context issues) attr ps"
  by (induction ps arbitrary: issues) (simp_all add: mandatory_errors_def)

lemma optional_collected:
  "collected (assert_has_optional_properties sch issues attr ps) =
     collected issues @ optional_warnings sch (local_context issues) attr ps"
  by (induction ps arbitrary: issues)
     (simp_all add: optional_warnings_def List.map_filter_simps split: option.splits
        cong: option.case_cong)

lemma node_typed_node [simp]: "node (typed_node sch g n v) = n"
  by (cases v) (simp_all add: typed_node_def)

lemma post_init_local_context [simp]:
  "local_context (post_init sch issues nd) = local_context issues"
  by (simp add: post_init_def Metadata_post_init_def Let_def split: body.splits
      del: assert_has_mandatory_properties.simps assert_has_optional_properties.simps)

lemma post_init_collected:
  "collected (post_init sch issues nd) =
     collected issues @ emitted sch (local_context issues) nd"
  by (simp add: post_init_def Metadata_post_init_def emitted_def
        mandatory_collected optional_collected split: body.splits
        del: getattr.simps assert_has_mandatory_properties.simps
          assert_has_optional_properties.simps)

lemma post_init_eq:
  "post_init sch issues nd =
     issues\<lparr>collected := collected issues @ emitted sch (local_context issues) nd\<rparr>"
  by (rule Issues.equality) (simp_all add: post_init_collected)

lemma materialize_eq:
  "materialize sch issues g n v =
     (issues\<lparr>collected := collected issues @
         emitted sch (local_context issues) (typed_node sch g n v)\<rparr>,
      typed_node sch g n v)"
  by (simp add: materialize_def post_init_eq Let_def)

lemma materialize_all_eq:
  "materialize_all sch issues g v ts =
     (issues\<lparr>collected := collected issues @
         concat (map (\<lambda>t. emitted sch (local_context issues) (typed_node sch g t v)) ts)\<rparr>,
      map (\<lambda>t. typed_node sch g t v) ts)"
  by (induction ts arbitrary: issues) (simp_all add: materialize_eq)

lemma children_nodes_eq:
  "children_nodes sch issues g nd p =
     (issues\<lparr>collected := collected issues @
         concat (map (emitted sch (local_context issues)) (kids sch g nd p))\<rparr>,
      kids sch g nd p)"
  by (simp add: children_nodes_def materialize_all_eq kids_def comp_def)

lemma fields_loop_eq:
  "fields_loop sch g flds (issues, nds) =
     (issues\<lparr>collected := collected issues @
         concat (map (\<lambda>f. concat (map (emitted sch (local_context issues))
                                   (kids sch g f ML_COMMONS_SUB_FIELD))) flds)\<rparr>,
      nds @ concat (map (\<lambda>f. kids sch g f ML_COMMONS_SUB_FIELD) flds))"
  by (induction flds arbitrary: issues nds) (simp_all add: children_nodes_eq)

lemma record_sets_loop_eq:
  "record_sets_loop sch g ds_name rs (issues, nds) =
     (issues\<lparr>collected := collected issues @
         concat (map (record_set_issues sch g (local_context issues) ds_name) rs)\<rparr>,
      nds @ concat (map (record_set_nodes sch g) rs))"
  by (induction rs arbitrary: issues nds)
     (simp_all add: children_nodes_eq fields_loop_eq record_set_issues_def
        record_set_nodes_def record_set_context_def context_enter_def context_exit_def
        no_field_error_def Let_def)


lemma find_entry_object_Cons:
  "sources g = s # rest \<Longrightarrow>
     find_entry_object issues g =
       (issues\<lparr>collected := collected issues @ entry_errors g (local_context issues)\<rparr>, Inr s)"
  by (cases rest) (simp_all add: find_entry_object_def entry_errors_def add_error_def)

lemma check_rdf_graph_eq:
  assumes "sources g = s # rest"
  shows "check_rdf_graph sch issues g =
     (issues\<lparr>collected := collected issues @ walk_issues sch g (local_context issues) s\<rparr>,
      Inr (walk_nodes sch g s))"
  by (simp add: check_rdf_graph_def find_entry_object_Cons [OF assms] from_rdf_graph_def
      materialize_eq children_nodes_eq record_sets_loop_eq context_enter_def context_exit_def
      walk_issues_def walk_nodes_def distribution_context_def Let_def)

lemma check_rdf_graph_Nil:
  "sources g = [] \<Longrightarrow>
     check_rdf_graph sch issues g = (add_error issues more_than_one_dataset, Inl IndexError)"
  by (simp add: check_rdf_graph_def find_entry_object_def)

lemma appended_update [simp]:
  "appended issues (issues\<lparr>collected := collected issues @ xs\<rparr>) = xs"
  by (simp add: appended_def)

lemma mandatory_message_inj [simp]: "mandatory_message p = mandatory_message q \<longleftrightarrow> p = q"
  by (simp add: mandatory_message_def)

lemma mandatory_message_not_structural [simp]:
  "mandatory_message p \<noteq> more_than_one_dataset" "mandatory_message p \<noteq> no_field"
  by (simp_all add: mandatory_message_def more_than_one_dataset_def no_field_def)

lemma filter_structural_emitted [simp]: "filter structural (emitted sch c nd) = []"
  by (auto simp: emitted_def mandatory_errors_def optional_warnings_def structural_def
      filter_empty_conv List.map_filter_def split: body.splits option.splits)

lemma filter_structural_concat_emitted [simp]:
  "filter structural (concat (map (emitted sch c) nds)) = []"
  by (induction nds) simp_all

lemma predicates_distinct [simp]:
  "child_variant SCHEMA_ORG_DISTRIBUTION = DistributionV"
  "child_variant ML_COMMONS_RECORD_SET = RecordSetV"
  "child_variant ML_COMMONS_FIELD = FieldV"
  "child_variant ML_COMMONS_SUB_FIELD = SubFieldV"
  by (simp_all add: child_variant_def SCHEMA_ORG_DISTRIBUTION_def ML_COMMONS_RECORD_SET_def
      ML_COMMONS_FIELD_def ML_COMMONS_SUB_FIELD_def)


lemma record_set_context_eq:
  "record_set_context c ds_name r =
     c\<lparr>dataset_name := Some ds_name, record_set_name := Some (Node_name r),
       field_name := Some []\<rparr>"
  by (simp add: record_set_context_def override_def)

lemma filter_structural_concat_nested [simp]:
  "filter structural (concat (map (\<lambda>f. concat (map (emitted sch c) (h f))) fs)) = []"
  by (induction fs) simp_all

lemma filter_structural_record_set_issues:
  "filter structural (record_set_issues sch g c ds_name r) =
     (if kids sch g r ML_COMMONS_FIELD = []
      then [no_field_error (record_set_context c ds_name r)] else [])"
  by (simp add: record_set_issues_def Let_def no_field_error_def structural_def)

section \<open>Traversal order\<close>

text \<open>
  C1. On a graph with the metadata \<open>m\<close>, the distributions \<open>d1\<close>, \<open>d2\<close>, the record set
  \<open>r1\<close> with the fields \<open>a\<close>, \<open>b\<close> and the record set \<open>r2\<close> without fields (and no
  sub-fields), \<open>check_rdf_graph\<close> returns the seven nodes in the order metadata,
  distributions, record sets, fields; and among the issues it appends there is exactly
  one structural error, the one for \<open>r2\<close>, raised within the scope of \<open>r2\<close>.
\<close>

theorem check_rdf_graph_p5:
  assumes "sources g = [m]"
    and "children_terms g m SCHEMA_ORG_DISTRIBUTION = [d1, d2]"
    and "children_terms g m ML_COMMONS_RECORD_SET = [r1, r2]"
    and "children_terms g r1 ML_COMMONS_FIELD = [a, b]"
    and "children_terms g r2 ML_COMMONS_FIELD = []"
    and "children_terms g a ML_COMMONS_SUB_FIELD = []"
    and "children_terms g b ML_COMMONS_SUB_FIELD = []"
  shows "snd (check_rdf_graph sch issues g) =
           Inr [typed_node sch g m MetadataV,
                typed_node sch g d1 DistributionV, typed_node sch g d2 DistributionV,
                typed_node sch g r1 RecordSetV, typed_node sch g r2 RecordSetV,
                typed_node sch g a FieldV, typed_node sch g b FieldV]
       \<and> filter structural (appended issues (fst (check_rdf_graph sch issues g))) =
           [\<lparr>severity = Error, message = no_field,
             ctx = (local_context issues)
               \<lparr>dataset_name := Some (Node_name (typed_node sch g m MetadataV)),
                record_set_name := Some (Node_name (typed_node sch g r2 RecordSetV)),
                field_name := Some []\<rparr>\<rparr>]"
proof -
  have nodes: "walk_nodes sch g m =
      [typed_node sch g m MetadataV,
       typed_node sch g d1 DistributionV, typed_node sch g d2 DistributionV,
       typed_node sch g r1 RecordSetV, typed_node sch g r2 RecordSetV,
       typed_node sch g a FieldV, typed_node sch g b FieldV]"
    using assms(2-7) by (simp add: walk_nodes_def kids_def record_set_nodes_def)
  have "length (sources g) = 1"
    using assms(1) by simp
  then have "filter structural (walk_issues sch g (local_context issues) m) =
      [no_field_error (record_set_context (local_context issues)
         (Node_name (typed_node sch g m MetadataV)) (typed_node sch g r2 RecordSetV))]"
    using assms(2-7)
    by (simp add: walk_issues_def entry_errors_def Let_def kids_def
        filter_structural_record_set_issues)
  with nodes show ?thesis
    by (simp add: check_rdf_graph_eq [OF assms(1)] no_field_error_def record_set_context_eq)
qed

theorem check_rdf_graph_p5_witness:
  "sources p5_graph = [BNode ''m'']
   \<and> children_terms p5_graph (BNode ''m'') SCHEMA_ORG_DISTRIBUTION = [BNode ''d1'', BNode ''d2'']
   \<and> children_terms p5_graph (BNode ''m'') ML_COMMONS_RECORD_SET = [BNode ''r1'', BNode ''r2'']
   \<and> children_terms p5_graph (BNode ''r1'') ML_COMMONS_FIELD = [BNode ''a'', BNode ''b'']
   \<and> children_terms p5_graph (BNode ''r2'') ML_COMMONS_FIELD = []
   \<and> children_terms p5_graph (BNode ''a'') ML_COMMONS_SUB_FIELD = []
   \<and> children_terms p5_graph (BNode ''b'') ML_COMMONS_SUB_FIELD = []
   \<and> map node (projr (snd (check_rdf_graph example_schema no_issues p5_graph))) =
        [BNode ''m'', BNode ''d1'', BNode ''d2'', BNode ''r1'', BNode ''r2'', BNode ''a'',
         BNode ''b'']
   \<and> filter structural
         (appended no_issues (fst (check_rdf_graph example_schema no_issues p5_graph))) =
        [\<lparr>severity = Error, message = no_field,
          ctx = \<lparr>dataset_name = Some ''Titanic'', distribution_name = None,
                 record_set_name = Some ''R2'', field_name = Some []\<rparr>\<rparr>]"
proof -
  have s: "sources p5_graph = [BNode ''m'']"
    by code_simp
  have d: "children_terms p5_graph (BNode ''m'') SCHEMA_ORG_DISTRIBUTION =
      [BNode ''d1'', BNode ''d2'']"
    by code_simp
  have r: "children_terms p5_graph (BNode ''m'') ML_COMMONS_RECORD_SET =
      [BNode ''r1'', BNode ''r2'']"
    by code_simp
  have f1: "children_terms p5_graph (BNode ''r1'') ML_COMMONS_FIELD = [BNode ''a'', BNode ''b'']"
    by code_simp
  have f2: "children_terms p5_graph (BNode ''r2'') ML_COMMONS_FIELD = []"
    by code_simp
  have sa: "children_terms p5_graph (BNode ''a'') ML_COMMONS_SUB_FIELD = []"
    by code_simp
  have sb: "children_terms p5_graph (BNode ''b'') ML_COMMONS_SUB_FIELD = []"
    by code_simp
  have nm: "Node_name (typed_node example_schema p5_graph (BNode ''m'') MetadataV) = ''Titanic''"
    by code_simp
  have nr: "Node_name (typed_node example_schema p5_graph (BNode ''r2'') RecordSetV) = ''R2''"
    by code_simp
  show ?thesis
    using check_rdf_graph_p5 [OF s d r f1 f2 sa sb, of example_schema no_issues]
    by (simp add: s d r f1 f2 sa sb nm nr no_issues_def empty_context_def)
qed

text \<open>
  C5, as stated, fails: with the record sets \<open>r1\<close> (field \<open>a\<close>) and \<open>r2\<close> (field \<open>b\<close>)
  the list is \<open>m, r1, r2, a, b\<close>, so \<open>r2\<close> stands between \<open>r1\<close> and its field.
\<close>

theorem check_rdf_graph_two_record_sets_counterexample:
  "children_terms two_record_sets_graph (BNode ''r1'') ML_COMMONS_FIELD = [BNode ''a'']
   \<and> children_terms two_record_sets_graph (BNode ''r2'') ML_COMMONS_FIELD = [BNode ''b'']
   \<and> map node (projr (snd (check_rdf_graph example_schema no_issues two_record_sets_graph))) =
        [BNode ''m'', BNode ''r1'', BNode ''r2'', BNode ''a'', BNode ''b'']"
  by code_simp

text \<open>
  C5, amended. Whenever an entry is found, the returned list is the metadata, its
  distributions, then all its record sets, and only then, for each record set in turn,
  the fields of that record set followed by the sub-fields of each of these fields.
\<close>

theorem check_rdf_graph_order:
  assumes "sources g \<noteq> []"
  shows "snd (check_rdf_graph sch issues g) =
     Inr (let m = typed_node sch g (hd (sources g)) MetadataV;
              rs = kids sch g m ML_COMMONS_RECORD_SET
          in [m] @ kids sch g m SCHEMA_ORG_DISTRIBUTION @ rs @
             concat (map (\<lambda>r. kids sch g r ML_COMMONS_FIELD @
                            concat (map (\<lambda>f. kids sch g f ML_COMMONS_SUB_FIELD)
                                      (kids sch g r ML_COMMONS_FIELD))) rs))"
proof -
  from assms obtain s rest where s: "sources g = s # rest"
    by (cases "sources g") auto
  have "record_set_nodes sch g =
      (\<lambda>r. kids sch g r ML_COMMONS_FIELD @
            concat (map (\<lambda>f. kids sch g f ML_COMMONS_SUB_FIELD) (kids sch g r ML_COMMONS_FIELD)))"
    by (rule ext) (simp add: record_set_nodes_def)
  then show ?thesis
    by (simp add: check_rdf_graph_eq [OF s] s walk_nodes_def Let_def)
qed

theorem check_rdf_graph_order_witness:
  "sources two_record_sets_graph \<noteq> []
   \<and> snd (check_rdf_graph example_schema no_issues two_record_sets_graph) =
      Inr [typed_node example_schema two_record_sets_graph (BNode ''m'') MetadataV,
           typed_node example_schema two_record_sets_graph (BNode ''r1'') RecordSetV,
           typed_node example_schema two_record_sets_graph (BNode ''r2'') RecordSetV,
           typed_node example_schema two_record_sets_graph (BNode ''a'') FieldV,
           typed_node example_schema two_record_sets_graph (BNode ''b'') FieldV]"
proof -
  have s: "sources two_record_sets_graph = [BNode ''m'']"
    by code_simp
  then have ne: "sources two_record_sets_graph \<noteq> []"
    by simp
  have k: "children_terms two_record_sets_graph (BNode ''m'') SCHEMA_ORG_DISTRIBUTION = []"
    "children_terms two_record_sets_graph (BNode ''m'') ML_COMMONS_RECORD_SET =
       [BNode ''r1'', BNode ''r2'']"
    "children_terms two_record_sets_graph (BNode ''r1'') ML_COMMONS_FIELD = [BNode ''a'']"
    "children_terms two_record_sets_graph (BNode ''r2'') ML_COMMONS_FIELD = [BNode ''b'']"
    "children_terms two_record_sets_graph (BNode ''a'') ML_COMMONS_SUB_FIELD = []"
    "children_terms two_record_sets_graph (BNode ''b'') ML_COMMONS_SUB_FIELD = []"
    by code_simp+
  show ?thesis
    using check_rdf_graph_order [OF ne, of example_schema no_issues]
    by (simp add: s k kids_def Let_def)
qed

section \<open>Failed entry resolution\<close>

text \<open>
  C3. On a graph without any blank node of in-degree 0, \<open>find_entry_object\<close> records the
  error and then fails: \<^verbatim>\<open>sources[0]\<close> raises \<^verbatim>\<open>IndexError\<close> on the empty list. The graph
  here is that of a dataset whose top-level object is identified by an IRI.
\<close>

theorem find_entry_object_no_candidate:
  "sources iri_dataset_graph = []
   \<and> find_entry_object no_issues iri_dataset_graph =
        (add_error no_issues more_than_one_dataset, Inl IndexError)
   \<and> check_rdf_graph example_schema no_issues iri_dataset_graph =
        (add_error no_issues more_than_one_dataset, Inl IndexError)"
proof -
  have s: "sources iri_dataset_graph = []"
    by code_simp
  then show ?thesis
    by (simp add: find_entry_object_def check_rdf_graph_Nil)
qed

text \<open>
  C4, as stated, fails: on a graph with two blank nodes of in-degree 0 the walk does not
  stop, and the returned list holds the metadata materialized from the first of them.
\<close>

theorem check_rdf_graph_two_datasets_counterexample:
  "length (sources two_datasets_graph) = 2
   \<and> snd (check_rdf_graph example_schema no_issues two_datasets_graph) =
        Inr [\<lparr>node = BNode ''m1'',
              body = Metadata_body
                \<lparr>citation = None, description = None, license = None, name = ''One'',
                 url = []\<rparr>\<rparr>]"
  by code_simp

text \<open>
  C4, amended. On a graph with two or more blank nodes of in-degree 0,
  \<open>check_rdf_graph\<close> records the structural error first and then walks the hierarchy
  below the first of these nodes \<open>s\<close>: the returned list is the metadata materialized
  from \<open>s\<close>, its distributions, its record sets and, for each record set in turn, its
  fields and their sub-fields; the issues appended are the structural error followed by
  those of materializing these nodes and of the record sets without fields; the context
  is in the end what it was at the call.
\<close>

theorem check_rdf_graph_several_entries:
  assumes "sources g = s # t # rest"
  shows "snd (check_rdf_graph sch issues g) =
           Inr (let m = typed_node sch g s MetadataV;
                    rs = kids sch g m ML_COMMONS_RECORD_SET
                in [m] @ kids sch g m SCHEMA_ORG_DISTRIBUTION @ rs @
                   concat (map (\<lambda>r. kids sch g r ML_COMMONS_FIELD @
                                  concat (map (\<lambda>f. kids sch g f ML_COMMONS_SUB_FIELD)
                                            (kids sch g r ML_COMMONS_FIELD))) rs))
       \<and> appended issues (fst (check_rdf_graph sch issues g)) =
           (let m = typed_node sch g s MetadataV;
                c = local_context issues;
                rs = kids sch g m ML_COMMONS_RECORD_SET
            in [\<lparr>severity = Error, message = more_than_one_dataset, ctx = c\<rparr>] @
               emitted sch c m @
               concat (map (emitted sch (distribution_context c (Node_name m)))
                         (kids sch g m SCHEMA_ORG_DISTRIBUTION)) @
               concat (map (emitted sch c) rs) @
               concat (map (record_set_issues sch g c (Node_name m)) rs))
       \<and> local_context (fst (check_rdf_graph sch issues g)) = local_context issues"
proof -
  have "record_set_nodes sch g =
      (\<lambda>r. kids sch g r ML_COMMONS_FIELD @
            concat (map (\<lambda>f. kids sch g f ML_COMMONS_SUB_FIELD) (kids sch g r ML_COMMONS_FIELD)))"
    by (rule ext) (simp add: record_set_nodes_def)
  then show ?thesis
    using assms
    by (simp add: check_rdf_graph_eq [OF assms] walk_nodes_def walk_issues_def Let_def
        entry_errors_def)
qed

theorem check_rdf_graph_several_entries_witness:
  "sources two_datasets_hierarchy_graph = [BNode ''m1'', BNode ''m2'']
   \<and> snd (check_rdf_graph example_schema no_issues two_datasets_hierarchy_graph) =
        Inr [typed_node example_schema two_datasets_hierarchy_graph (BNode ''m1'') MetadataV,
             typed_node example_schema two_datasets_hierarchy_graph (BNode ''d'') DistributionV,
             typed_node example_schema two_datasets_hierarchy_graph (BNode ''r'') RecordSetV,
             typed_node example_schema two_datasets_hierarchy_graph (BNode ''a'') FieldV,
             typed_node example_schema two_datasets_hierarchy_graph (BNode ''s'') SubFieldV]
   \<and> take 1 (appended no_issues
        (fst (check_rdf_graph example_schema no_issues two_datasets_hierarchy_graph))) =
        [\<lparr>severity = Error, message = more_than_one_dataset, ctx = empty_context\<rparr>]"
proof -
  have s: "sources two_datasets_hierarchy_graph = [BNode ''m1'', BNode ''m2'']"
    by code_simp
  have k: "children_terms two_datasets_hierarchy_graph (BNode ''m1'') SCHEMA_ORG_DISTRIBUTION =
      [BNode ''d'']"
    "children_terms two_datasets_hierarchy_graph (BNode ''m1'') ML_COMMONS_RECORD_SET =
      [BNode ''r'']"
    "children_terms two_datasets_hierarchy_graph (BNode ''r'') ML_COMMONS_FIELD = [BNode ''a'']"
    "children_terms two_datasets_hierarchy_graph (BNode ''a'') ML_COMMONS_SUB_FIELD =
      [BNode ''s'']"
    by code_simp+
  have lc: "local_context no_issues = empty_context"
    by (simp add: no_issues_def)
  show ?thesis
    using check_rdf_graph_several_entries [OF s, where sch = example_schema and issues = no_issues]
    by (simp add: s k kids_def Let_def lc)
qed

section \<open>Record sets without fields\<close>

lemma filter_no_field_emitted [simp]: "filter is_no_field (emitted sch c nd) = []"
  by (auto simp: emitted_def mandatory_errors_def optional_warnings_def is_no_field_def
      filter_empty_conv List.map_filter_def split: body.splits option.splits)

lemma filter_no_field_concat_emitted [simp]:
  "filter is_no_field (concat (map (emitted sch c) nds)) = []"
  by (induction nds) simp_all

lemma filter_no_field_concat_nested [simp]:
  "filter is_no_field (concat (map (\<lambda>f. concat (map (emitted sch c) (h f))) fs)) = []"
  by (induction fs) simp_all

lemma filter_no_field_entry_errors [simp]: "filter is_no_field (entry_errors g c) = []"
  by (simp add: entry_errors_def is_no_field_def more_than_one_dataset_def no_field_def)

lemma filter_no_field_record_set_issues:
  "filter is_no_field (record_set_issues sch g c ds_name r) =
     (if kids sch g r ML_COMMONS_FIELD = []
      then [no_field_error (record_set_context c ds_name r)] else [])"
  by (simp add: record_set_issues_def Let_def no_field_error_def is_no_field_def)

lemma filter_no_field_record_sets:
  "filter is_no_field (concat (map (record_set_issues sch g c ds_name) rs)) =
     map (\<lambda>r. no_field_error (record_set_context c ds_name r))
       (filter (\<lambda>r. kids sch g r ML_COMMONS_FIELD = []) rs)"
  by (induction rs) (simp_all add: filter_no_field_record_set_issues)

text \<open>
  C6. Whenever an entry is found, every record set of the metadata is in the returned
  list, and the errors with the message of the missing fields are, in order, exactly one
  for each record set without fields, raised in the context in which \<open>dataset_name\<close> is
  the name of the metadata, \<open>record_set_name\<close> the name of that record set and
  \<open>field_name\<close> the empty string.
\<close>

theorem check_rdf_graph_no_field:
  assumes "sources g \<noteq> []"
    and "m = typed_node sch g (hd (sources g)) MetadataV"
    and "check_rdf_graph sch issues g = (issues', result)"
  shows "\<exists>nds. result = Inr nds
       \<and> set (kids sch g m ML_COMMONS_RECORD_SET) \<subseteq> set nds
       \<and> filter is_no_field (appended issues issues') =
           map (\<lambda>r. \<lparr>severity = Error, message = no_field,
                      ctx = (local_context issues)
                        \<lparr>dataset_name := Some (Node_name m),
                         record_set_name := Some (Node_name r),
                         field_name := Some []\<rparr>\<rparr>)
             (filter (\<lambda>r. kids sch g r ML_COMMONS_FIELD = [])
                (kids sch g m ML_COMMONS_RECORD_SET))"
proof -
  from assms(1) obtain s rest where s: "sources g = s # rest"
    by (cases "sources g") auto
  have ctx: "\<And>r. no_field_error (record_set_context (local_context issues) (Node_name m) r) =
      \<lparr>severity = Error, message = no_field,
       ctx = (local_context issues)
         \<lparr>dataset_name := Some (Node_name m), record_set_name := Some (Node_name r),
          field_name := Some []\<rparr>\<rparr>"
    by (simp add: no_field_error_def record_set_context_eq)
  from assms(2) s have m: "m = typed_node sch g s MetadataV"
    by simp
  from assms(3) have r: "result = Inr (walk_nodes sch g s)"
    and i: "issues' =
      issues\<lparr>collected := collected issues @ walk_issues sch g (local_context issues) s\<rparr>"
    by (simp_all add: check_rdf_graph_eq [OF s])
  have "set (kids sch g m ML_COMMONS_RECORD_SET) \<subseteq> set (walk_nodes sch g s)"
    by (auto simp: walk_nodes_def Let_def m)
  moreover have "filter is_no_field (appended issues issues') =
      map (\<lambda>r. no_field_error (record_set_context (local_context issues) (Node_name m) r))
        (filter (\<lambda>r. kids sch g r ML_COMMONS_FIELD = []) (kids sch g m ML_COMMONS_RECORD_SET))"
    by (simp add: i walk_issues_def Let_def m filter_no_field_record_sets)
  ultimately show ?thesis
    using r by (simp add: ctx)
qed

theorem check_rdf_graph_no_field_witness:
  "sources no_field_graph \<noteq> []
   \<and> map node (projr (snd (check_rdf_graph example_schema no_issues no_field_graph))) =
        [BNode ''m'', BNode ''d'', BNode ''r'']
   \<and> filter is_no_field
        (appended no_issues (fst (check_rdf_graph example_schema no_issues no_field_graph))) =
        [\<lparr>severity = Error, message = no_field,
          ctx = \<lparr>dataset_name = Some ''Titanic'', distribution_name = None,
                 record_set_name = Some ''R'', field_name = Some []\<rparr>\<rparr>]"
proof -
  have s: "sources no_field_graph = [BNode ''m'']"
    by code_simp
  then have ne: "sources no_field_graph \<noteq> []"
    by simp
  have k: "children_terms no_field_graph (BNode ''m'') ML_COMMONS_RECORD_SET = [BNode ''r'']"
    "children_terms no_field_graph (BNode ''r'') ML_COMMONS_FIELD = []"
    by code_simp+
  have n: "Node_name (typed_node example_schema no_field_graph (BNode ''m'') MetadataV) =
      ''Titanic''"
    "Node_name (typed_node example_schema no_field_graph (BNode ''r'') RecordSetV) = ''R''"
    by code_simp+
  have v: "map node (projr (snd (check_rdf_graph example_schema no_issues no_field_graph))) =
      [BNode ''m'', BNode ''d'', BNode ''r'']"
    by code_simp
  have lc: "local_context no_issues = empty_context"
    by (simp add: no_issues_def)
  show ?thesis
    using check_rdf_graph_no_field [OF ne refl prod.collapse [symmetric],
        of example_schema no_issues] ne v
    by (auto simp add: s k n kids_def lc empty_context_def)
qed

section \<open>The context of the record sets\<close>

text \<open>
  C7. The record sets are materialized after the scope of the distributions is left and
  before the scope of any record set is entered. On the dataset \<open>Titanic\<close> with a record
  set that has no name, the error for the missing name is recorded in the empty
  context, without \<open>dataset_name\<close>; the error for the missing fields, raised inside the
  scope of the record set, has it.
\<close>

theorem check_rdf_graph_record_set_context:
  "collected (fst (check_rdf_graph example_schema no_issues unnamed_record_set_graph)) =
     [\<lparr>severity = Error, message = mandatory_message ''name'', ctx = empty_context\<rparr>,
      \<lparr>severity = Error, message = no_field,
       ctx = \<lparr>dataset_name = Some ''Titanic'', distribution_name = None,
              record_set_name = Some [], field_name = Some []\<rparr>\<rparr>]"
  by code_simp

section \<open>Mandatory and optional properties\<close>

lemma map_of_resolved:
  "map_of (List.map_filter (\<lambda>p. case f p of None \<Rightarrow> None | Some s \<Rightarrow> Some (p, s)) ps) q =
     (if q \<in> set ps then f q else None)"
  by (induction ps) (auto simp: List.map_filter_simps split: option.splits)

lemma missing_None [simp]: "missing None"
  by (simp add: missing_def)

lemma Metadata_getattr_simps [simp]:
  "Metadata_getattr m ''citation'' = citation m"
  "Metadata_getattr m ''description'' = description m"
  "Metadata_getattr m ''license'' = license m"
  "Metadata_getattr m ''name'' = Some (name m)"
  "Metadata_getattr m ''url'' = Some (url m)"
  by (simp_all add: Metadata_getattr_def)

lemma Metadata_getattr_description [simp]:
  "p \<noteq> ''description'' \<Longrightarrow>
     Metadata_getattr (m\<lparr>description := d\<rparr>) p = Metadata_getattr m p"
  by (simp add: Metadata_getattr_def)

lemma missing_Some_default [simp]: "missing (Some (default_str v)) = missing v"
  by (cases v) (simp_all add: missing_def default_str_def)

lemma getattr_typed_node_mandatory:
  assumes "p \<in> set (mandatory_fields sch v)"
  shows "missing (getattr (typed_node sch g n v) p) = missing (resolve sch g n v p)"
proof (cases "v = MetadataV")
  case True
  with assms have "p = ''name'' \<or> p = ''url''"
    by (simp add: mandatory_fields_def)
  with True show ?thesis
    by (auto simp: typed_node_def)
next
  case False
  with assms have "p \<in> set (mandatory sch v @ optional sch v)"
    by (simp add: mandatory_fields_def)
  with False show ?thesis
    by (cases v) (simp_all add: typed_node_def map_of_resolved)
qed

lemma getattr_typed_node_present:
  assumes "p \<in> set (mandatory_fields sch v)" and "\<not> missing (resolve sch g n v p)"
  shows "getattr (typed_node sch g n v) p = resolve sch g n v p"
proof (cases "v = MetadataV")
  case True
  with assms(1) have "p = ''name'' \<or> p = ''url''"
    by (simp add: mandatory_fields_def)
  with True assms(2) show ?thesis
    by (auto simp: typed_node_def missing_def default_str_def split: option.splits)
next
  case False
  with assms(1) have "p \<in> set (mandatory sch v @ optional sch v)"
    by (simp add: mandatory_fields_def)
  with False show ?thesis
    by (cases v) (simp_all add: typed_node_def map_of_resolved)
qed

lemma mandatory_errors_cong:
  "(\<And>p. p \<in> set ps \<Longrightarrow> missing (attr p) = missing (attr' p)) \<Longrightarrow>
     mandatory_errors c attr ps = mandatory_errors c attr' ps"
  by (simp add: mandatory_errors_def cong: filter_cong)

lemma no_mandatory_error:
  "\<not> missing (attr p) \<Longrightarrow>
     filter (\<lambda>i. severity i = Error \<and> message i = mandatory_message p)
       (mandatory_errors c attr ps) = []"
  by (auto simp: mandatory_errors_def filter_empty_conv)

lemma emitted_typed_node:
  "emitted sch c (typed_node sch g n v) =
     mandatory_errors c (getattr (typed_node sch g n v)) (mandatory_fields sch v) @
     optional_warnings sch c (getattr (typed_node sch g n v)) (optional_fields sch v)"
proof (cases v)
  case MetadataV
  have "getattr (typed_node sch g n MetadataV) =
      Metadata_getattr (case body (typed_node sch g n MetadataV) of Metadata_body m \<Rightarrow> m)"
    by (rule ext) (simp add: typed_node_def)
  with MetadataV show ?thesis
    by (simp add: emitted_def mandatory_fields_def optional_fields_def typed_node_def
        del: getattr.simps)
qed (simp_all add: emitted_def mandatory_fields_def optional_fields_def typed_node_def
      del: getattr.simps)

lemma filter_errors_mandatory [simp]:
  "filter (\<lambda>i. severity i = Error) (mandatory_errors c attr ps) = mandatory_errors c attr ps"
  by (simp add: mandatory_errors_def)

lemma filter_errors_optional [simp]:
  "filter (\<lambda>i. severity i = Error \<and> P i) (optional_warnings sch c attr ps) = []"
  by (auto simp: optional_warnings_def List.map_filter_def filter_empty_conv
      split: option.splits)

lemma filter_errors_optional' [simp]:
  "filter (\<lambda>i. severity i = Error) (optional_warnings sch c attr ps) = []"
  using filter_errors_optional [where P = "\<lambda>i. True"] by simp

lemma length_filter_eq_distinct:
  "distinct xs \<Longrightarrow> p \<in> set xs \<Longrightarrow> P p \<Longrightarrow> length (filter (\<lambda>q. P q \<and> q = p) xs) = 1"
  by (induction xs) (auto simp: filter_empty_conv)

lemma count_mandatory_errors:
  "distinct ps \<Longrightarrow> p \<in> set ps \<Longrightarrow> missing (attr p) \<Longrightarrow>
     length (filter (\<lambda>i. severity i = Error \<and> message i = mandatory_message p)
       (mandatory_errors c attr ps)) = 1"
  using length_filter_eq_distinct [of ps p "\<lambda>q. missing (attr q)"]
  by (simp add: mandatory_errors_def filter_map comp_def)

text \<open>
  C8. Materializing a node of any variant returns the constructed node whatever the
  checks find. The errors it appends are exactly those for the mandatory fields of the
  variant that the input leaves out or leaves empty, each with the message that names
  the field, in the context of the call: exactly one for each such field, and none for
  a mandatory field that the input has. In the node a mandatory field that the input
  lacks is absent or empty, and one that the input has carries the value of the input.
\<close>

theorem materialize_mandatory:
  assumes "materialize sch issues g n v = (issues', nd)"
  shows "nd = typed_node sch g n v
       \<and> filter (\<lambda>i. severity i = Error) (appended issues issues') =
           map (\<lambda>p. \<lparr>severity = Error, message = mandatory_message p,
                      ctx = local_context issues\<rparr>)
             (filter (\<lambda>p. missing (resolve sch g n v p)) (mandatory_fields sch v))
       \<and> (\<forall>p \<in> set (mandatory_fields sch v).
            if missing (resolve sch g n v p) then missing (getattr nd p)
            else getattr nd p = resolve sch g n v p)
       \<and> (\<forall>p \<in> set (mandatory_fields sch v). \<not> missing (resolve sch g n v p) \<longrightarrow>
            filter (\<lambda>i. severity i = Error \<and> message i = mandatory_message p)
              (appended issues issues') = [])
       \<and> (distinct (mandatory_fields sch v) \<longrightarrow>
            (\<forall>p \<in> set (mandatory_fields sch v). missing (resolve sch g n v p) \<longrightarrow>
               length (filter (\<lambda>i. severity i = Error \<and> message i = mandatory_message p)
                         (appended issues issues')) = 1))"
proof -
  let ?r = "resolve sch g n v"
  from assms have nd: "nd = typed_node sch g n v"
    and "issues' = issues\<lparr>collected := collected issues @
            emitted sch (local_context issues) (typed_node sch g n v)\<rparr>"
    by (auto simp add: materialize_eq)
  then have "appended issues issues' =
      mandatory_errors (local_context issues) (getattr nd) (mandatory_fields sch v) @
      optional_warnings sch (local_context issues) (getattr nd) (optional_fields sch v)"
    by (simp add: emitted_typed_node del: getattr.simps)
  moreover have "mandatory_errors (local_context issues) (getattr nd) (mandatory_fields sch v) =
      mandatory_errors (local_context issues) ?r (mandatory_fields sch v)"
    by (rule mandatory_errors_cong) (simp add: nd getattr_typed_node_mandatory del: getattr.simps)
  ultimately have app: "appended issues issues' =
      mandatory_errors (local_context issues) ?r (mandatory_fields sch v) @
      optional_warnings sch (local_context issues) (getattr nd) (optional_fields sch v)"
    by simp
  have errs: "filter (\<lambda>i. severity i = Error) (appended issues issues') =
      map (\<lambda>p. \<lparr>severity = Error, message = mandatory_message p, ctx = local_context issues\<rparr>)
        (filter (\<lambda>p. missing (?r p)) (mandatory_fields sch v))"
    by (simp add: app del: getattr.simps) (simp add: mandatory_errors_def)
  have vals: "if missing (?r p) then missing (getattr nd p) else getattr nd p = ?r p"
    if "p \<in> set (mandatory_fields sch v)" for p
    using that getattr_typed_node_mandatory [OF that, of g n]
      getattr_typed_node_present [OF that, of g n]
    by (simp add: nd del: getattr.simps)
  have none: "filter (\<lambda>i. severity i = Error \<and> message i = mandatory_message p)
      (appended issues issues') = []"
    if "\<not> missing (?r p)" for p
    using no_mandatory_error [where attr = ?r, OF that]
    by (simp add: app del: getattr.simps)
  have one: "length (filter (\<lambda>i. severity i = Error \<and> message i = mandatory_message p)
      (appended issues issues')) = 1"
    if "distinct (mandatory_fields sch v)" "p \<in> set (mandatory_fields sch v)" "missing (?r p)"
    for p
    using count_mandatory_errors [where attr = ?r and c = "local_context issues", OF that]
    by (simp add: app del: getattr.simps)
  from nd errs vals none one show ?thesis
    by blast
qed


theorem materialize_mandatory_witness:
  "materialize example_schema no_issues two_datasets_graph (BNode ''m1'') MetadataV =
     (add_error no_issues (mandatory_message ''url''),
      \<lparr>node = BNode ''m1'',
       body = Metadata_body
         \<lparr>citation = None, description = None, license = None, name = ''One'', url = []\<rparr>\<rparr>)
   \<and> distinct (mandatory_fields example_schema MetadataV)
   \<and> ''url'' \<in> set (mandatory_fields example_schema MetadataV)
   \<and> missing (resolve example_schema two_datasets_graph (BNode ''m1'') MetadataV ''url'')
   \<and> ''name'' \<in> set (mandatory_fields example_schema MetadataV)
   \<and> \<not> missing (resolve example_schema two_datasets_graph (BNode ''m1'') MetadataV ''name'')
   \<and> filter (\<lambda>i. severity i = Error)
        (appended no_issues (add_error no_issues (mandatory_message ''url''))) =
        [\<lparr>severity = Error, message = mandatory_message ''url'', ctx = empty_context\<rparr>]
   \<and> length (filter (\<lambda>i. severity i = Error \<and> message i = mandatory_message ''url'')
        (appended no_issues (add_error no_issues (mandatory_message ''url'')))) = 1
   \<and> filter (\<lambda>i. severity i = Error \<and> message i = mandatory_message ''name'')
        (appended no_issues (add_error no_issues (mandatory_message ''url''))) = []
   \<and> materialize example_schema no_issues iri_url_graph (BNode ''m'') MetadataV =
        (no_issues,
         \<lparr>node = BNode ''m'',
          body = Metadata_body
            \<lparr>citation = None, description = None, license = None, name = ''Titanic'',
             url = ''https://t.org''\<rparr>\<rparr>)
   \<and> materialize example_schema no_issues iri_url_graph (BNode ''d'') DistributionV =
        (add_error no_issues (mandatory_message ''name''),
         \<lparr>node = BNode ''d'', body = Typed_body DistributionV []\<rparr>)
   \<and> filter (\<lambda>i. severity i = Error)
        (appended no_issues (add_error no_issues (mandatory_message ''name''))) =
        [\<lparr>severity = Error, message = mandatory_message ''name'', ctx = empty_context\<rparr>]"
proof -
  have m: "materialize example_schema no_issues two_datasets_graph (BNode ''m1'') MetadataV =
     (add_error no_issues (mandatory_message ''url''),
      \<lparr>node = BNode ''m1'',
       body = Metadata_body
         \<lparr>citation = None, description = None, license = None, name = ''One'', url = []\<rparr>\<rparr>)"
    by code_simp
  have mi: "materialize example_schema no_issues iri_url_graph (BNode ''m'') MetadataV =
        (no_issues,
         \<lparr>node = BNode ''m'',
          body = Metadata_body
            \<lparr>citation = None, description = None, license = None, name = ''Titanic'',
             url = ''https://t.org''\<rparr>\<rparr>)"
    by code_simp
  have md: "materialize example_schema no_issues iri_url_graph (BNode ''d'') DistributionV =
        (add_error no_issues (mandatory_message ''name''),
         \<lparr>node = BNode ''d'', body = Typed_body DistributionV []\<rparr>)"
    by code_simp
  have d: "distinct (mandatory_fields example_schema MetadataV)"
    and i: "''url'' \<in> set (mandatory_fields example_schema MetadataV)"
    and j: "''name'' \<in> set (mandatory_fields example_schema MetadataV)"
    by (simp_all add: mandatory_fields_def)
  have r: "missing (resolve example_schema two_datasets_graph (BNode ''m1'') MetadataV ''url'')"
    by code_simp
  have q: "\<not> missing (resolve example_schema two_datasets_graph (BNode ''m1'') MetadataV
      ''name'')"
    by code_simp
  have lc: "local_context no_issues = empty_context"
    by (simp add: no_issues_def)
  have fd: "mandatory_fields example_schema DistributionV = [''name'']"
    by (simp add: mandatory_fields_def example_schema_def)
  have rd: "missing (resolve example_schema iri_url_graph (BNode ''d'') DistributionV ''name'')"
    by code_simp
  from materialize_mandatory [OF m] d i r
  have one: "length (filter (\<lambda>i. severity i = Error \<and> message i = mandatory_message ''url'')
      (appended no_issues (add_error no_issues (mandatory_message ''url'')))) = 1"
    by blast
  from materialize_mandatory [OF m] j q
  have none: "filter (\<lambda>i. severity i = Error \<and> message i = mandatory_message ''name'')
      (appended no_issues (add_error no_issues (mandatory_message ''url''))) = []"
    by blast
  from materialize_mandatory [OF m] r q
  have errs: "filter (\<lambda>i. severity i = Error)
      (appended no_issues (add_error no_issues (mandatory_message ''url''))) =
      [\<lparr>severity = Error, message = mandatory_message ''url'', ctx = empty_context\<rparr>]"
    by (simp add: mandatory_fields_def lc)
  from materialize_mandatory [OF md] rd
  have errs_d: "filter (\<lambda>i. severity i = Error)
      (appended no_issues (add_error no_issues (mandatory_message ''name''))) =
      [\<lparr>severity = Error, message = mandatory_message ''name'', ctx = empty_context\<rparr>]"
    by (simp add: fd lc)
  from m mi md d i j r q one none errs errs_d show ?thesis
    by simp
qed

text \<open>
  C10. \<open>Metadata_post_init\<close> appends an error for \<^verbatim>\<open>name\<close> and for \<^verbatim>\<open>url\<close> when
  empty, and whatever notice the schema attaches to \<^verbatim>\<open>citation\<close> and to \<^verbatim>\<open>license\<close>;
  nothing else. The description is stored as resolved, and the checks do not look at
  it: whatever its value, absent or not, the collector ends up the same.
\<close>

theorem Metadata_post_init_checks:
  "appended issues (Metadata_post_init sch issues self) =
      (if name self = [] then
         [\<lparr>severity = Error, message = mandatory_message ''name'', ctx = local_context issues\<rparr>]
       else []) @
      (if url self = [] then
         [\<lparr>severity = Error, message = mandatory_message ''url'', ctx = local_context issues\<rparr>]
       else []) @
      (case optional_notice sch ''citation'' (citation self) of
         None \<Rightarrow> []
       | Some msg \<Rightarrow> [\<lparr>severity = Warning, message = msg, ctx = local_context issues\<rparr>]) @
      (case optional_notice sch ''license'' (license self) of
         None \<Rightarrow> []
       | Some msg \<Rightarrow> [\<lparr>severity = Warning, message = msg, ctx = local_context issues\<rparr>])
   \<and> Metadata_post_init sch issues (self\<lparr>description := d\<rparr>) =
       Metadata_post_init sch issues self
   \<and> getattr (typed_node sch g n MetadataV) ''description'' =
       resolve sch g n MetadataV ''description''"
proof -
  have "collected (Metadata_post_init sch issues self) =
      collected issues @
      mandatory_errors (local_context issues) (Metadata_getattr self) [''name'', ''url''] @
      optional_warnings sch (local_context issues) (Metadata_getattr self)
        [''citation'', ''license'']"
    by (simp add: Metadata_post_init_def mandatory_collected optional_collected
        del: assert_has_mandatory_properties.simps assert_has_optional_properties.simps)
  then have "appended issues (Metadata_post_init sch issues self) =
      mandatory_errors (local_context issues) (Metadata_getattr self) [''name'', ''url''] @
      optional_warnings sch (local_context issues) (Metadata_getattr self)
        [''citation'', ''license'']"
    by (simp add: appended_def)
  moreover have "Metadata_post_init sch issues (self\<lparr>description := d\<rparr>) =
      Metadata_post_init sch issues self"
    by (simp add: Metadata_post_init_def)
  moreover have "getattr (typed_node sch g n MetadataV) ''description'' =
      resolve sch g n MetadataV ''description''"
    by (simp add: typed_node_def)
  ultimately show ?thesis
    by (simp add: mandatory_errors_def optional_warnings_def missing_def
        List.map_filter_simps del: getattr.simps split: option.splits)
qed

theorem Metadata_post_init_checks_witness:
  "appended no_issues
     (Metadata_post_init example_schema no_issues
        \<lparr>citation = None, description = None, license = None, name = ''Titanic'',
         url = ''https://t.org''\<rparr>) = []"
  using Metadata_post_init_checks [of no_issues example_schema
      "\<lparr>citation = None, description = None, license = None, name = ''Titanic'',
        url = ''https://t.org''\<rparr>"]
  by (simp add: example_schema_def)

end
